theory Spec2Isabelle
  imports Main "HOL-Library.Sublist"
begin

section \<open>Python strings\<close>

text \<open>
  A Python \<open>str\<close> is modelled as a \<open>string\<close> whose characters are the code points
  U+0000 to U+00FF. On that range \<open>str.lower()\<close> maps A-Z and the Latin-1 capitals
  (U+00C0 to U+00DE without the multiplication sign U+00D7) to the code point 32 above and
  leaves every other character as it is, and \<open>str.strip()\<close> removes leading and
  trailing characters among U+0009-U+000D, U+001C-U+0020, U+0085 and U+00A0. Code points
  above U+00FF are outside the model. The one character of the source beyond that range,
  the en dash U+2013 inside two answer texts, is written as its three UTF-8 bytes.
\<close>

definition is_space :: "char \<Rightarrow> bool" where
  "is_space c = (let n = (of_char c :: nat) in
     (9 \<le> n \<and> n \<le> 13) \<or> (28 \<le> n \<and> n \<le> 32) \<or> n = 133 \<or> n = 160)"

definition lower_char :: "char \<Rightarrow> char" where
  "lower_char c = (let n = (of_char c :: nat) in
     if (65 \<le> n \<and> n \<le> 90) \<or> (192 \<le> n \<and> n \<le> 222 \<and> n \<noteq> 215)
     then char_of (n + 32) else c)"

text \<open>\<open>s.lower()\<close>\<close>

definition lower :: "string \<Rightarrow> string" where
  "lower s = map lower_char s"

text \<open>\<open>s.strip()\<close>\<close>

definition strip :: "string \<Rightarrow> string" where
  "strip s = rev (dropWhile is_space (rev (dropWhile is_space s)))"

text \<open>\<open>w in q\<close> on strings: \<open>w\<close> occurs in \<open>q\<close> as a contiguous substring.\<close>

fun str_in :: "string \<Rightarrow> string \<Rightarrow> bool" where
  "str_in w [] = (w = [])"
| "str_in w (c # cs) = (prefix w (c # cs) \<or> str_in w cs)"

text \<open>\<open>any(word in q for word in ws)\<close>\<close>

fun any_in :: "string list \<Rightarrow> string \<Rightarrow> bool" where
  "any_in [] q = False"
| "any_in (word # ws) q = (str_in word q \<or> any_in ws q)"

definition en_dash :: string where
  "en_dash = [CHR 0xE2, CHR 0x80, CHR 0x93]"

definition newline :: string where
  "newline = [CHR 0x0A]"

section \<open>The rule-based question answering of \<open>answer_question\<close>\<close>

subsection \<open>The canned answers, in the order of the source\<close>

definition address_answer :: string where
  "address_answer =
     ''New Ideal Model Schools (NIMS) is located at No. 12 Old Pantisawa Road, '' @
     ''Jalingo, Taraba State, Nigeria.''"

definition contact_answer :: string where
  "contact_answer =
     ''You can contact New Ideal Model Schools at +234 803 426 1645 or '' @
     ''by email at info@nimschools.org. The school is at No. 12 Old Pantisawa '' @
     ''Road, Jalingo, Taraba State.''"

definition about_answer :: string where
  "about_answer =
     ''New Ideal Model Schools (NIMS) in Jalingo, Taraba State, focuses on '' @
     ''developing lifelong learning through quality education. The school '' @
     ''provides a vibrant learning environment with modern classrooms, '' @
     ''state-of-the-art facilities, and engaged students, and encourages '' @
     ''holistic development through academics and extracurricular activities.''"

definition admissions_answer :: string where
  "admissions_answer =
     ''Admissions for the 2025 academic year are open. The website links to '' @
     ''an admissions page where you can apply. If you need help with the '' @
     ''process, you can also call +234 803 426 1645 or email info@nimschools.org '' @
     ''for guidance on requirements, fees, and timelines.''"

definition eyfs_answer :: string where
  "eyfs_answer =
     ''Early Years Foundation Stage (EYFS) at NIMS includes classes like '' @
     ''Playgroup Lily, Pre-Nursery Jasmine, Pre-Nursery Tulip, Nursery Daisy, '' @
     ''Nursery Ivy, and Reception classes such as Sage and Rose.''"

definition ks1_answer :: string where
  "ks1_answer =
     ''Key Stage 1 at NIMS includes Year 1 Cheetah, Year 2 Dolphin, Year 2 Orca, '' @
     ''and Year 3 Bear classes.''"

definition ks2_answer :: string where
  "ks2_answer =
     ''Key Stage 2 at NIMS includes Year 4 Blue Jays, Year 5 Barn Owls, and '' @
     ''Year 6 Zebra.''"

definition ks3_answer :: string where
  "ks3_answer =
     ''Key Stage 3 at NIMS includes Year 7 Amber, Year 8 Ruby, and Year 9 Beryl.''"

definition ks4_answer :: string where
  "ks4_answer =
     ''Key Stage 4 at NIMS includes Year 10 Jasper, Year 11 Onyx, and Year 12 Topaz.''"

definition classes_answer :: string where
  "classes_answer =
     ''NIMS runs from Early Years Foundation Stage (EYFS) through Key Stages 1'' @ en_dash @
     ''4. EYFS covers playgroup and nursery up to reception; Key Stage 1 covers Years 1'' @
     en_dash @ ''3; '' @
     ''Key Stage 2 covers Years 4'' @ en_dash @ ''6; Key Stage 3 covers Years 7'' @ en_dash @
     ''9; and Key Stage 4 '' @
     ''covers Years 10'' @ en_dash @ ''12.''"

definition extracurricular_answer :: string where
  "extracurricular_answer =
     ''NIMS encourages holistic development through extracurricular activities, '' @
     ''including an art gallery, architectural design projects, and other clubs '' @
     ''and activities that support students' creativity and talents.''"

definition principal_answer :: string where
  "principal_answer =
     ''The Principal and Head of Schools at NIMS is Mr. Adebanjo Oluwafemi. '' @
     ''He has extensive experience in education and school leadership across '' @
     ''international schools in Nigeria.''"

definition vp_academic_answer :: string where
  "vp_academic_answer =
     ''The Vice Principal Academic at NIMS is Mrs. Ifeoma Victoria Onwuka. '' @
     ''She supports curriculum development and teacher effectiveness to ensure '' @
     ''strong academic outcomes.''"

definition vp_special_duties_answer :: string where
  "vp_special_duties_answer =
     ''The Vice Principal Special Duties at NIMS is Mr. David Kennedy. He helps '' @
     ''oversee daily operations and resources to maintain a safe and organized '' @
     ''learning environment.''"

definition art_teacher_answer :: string where
  "art_teacher_answer =
     ''The Art Teacher at NIMS is Mr. Baajon Cyracus Michael. He develops and '' @
     ''delivers engaging art lessons, helping students explore drawing, painting, '' @
     ''sculpture, and art appreciation.''"

definition ict_answer :: string where
  "ict_answer =
     ''Samuel Oguche serves as ICT staff and E-Librarian at NIMS, supporting '' @
     ''students' access to digital learning resources.''"

definition alumni_answer :: string where
  "alumni_answer =
     ''Alumni of NIMS describe it as the best school and say it has positively '' @
     ''impacted them and their generation. They highlight how studying at NIMS '' @
     ''helped them understand what education is really about and made them more '' @
     ''brilliant and competitive.''"

definition fees_answer :: string where
  "fees_answer =
     ''Details like fees, transport, and boarding are not clearly listed in the '' @
     ''public content I can see. Please contact the school directly at '' @
     ''+234 803 426 1645 or info@nimschools.org for the latest information.''"

definition fallback_answer :: string where
  "fallback_answer =
     ''I'm a NimSchools helper bot with information taken from the public website. '' @
     ''I couldn't find an exact answer to that question. You can:'' @ newline @
     ''- Ask about academics (EYFS, Key Stages 1'' @ en_dash @
     ''4, extracurricular activities).'' @ newline @
     ''- Ask about the principal, vice principals, or staff.'' @ newline @
     ''- Ask for contact details or the school location.'' @ newline @ newline @
     ''For anything else (like fees or detailed admission requirements), it's best to '' @
     ''call +234 803 426 1645 or email info@nimschools.org.''"

subsection \<open>The cascade\<close>

text \<open>
  \<open>answer_question\<close> lowercases the question and walks the chain of \<open>if\<close> statements
  of the source from top to bottom; the first condition that holds returns its answer.
\<close>

definition answer_question :: "string \<Rightarrow> string" where
  "answer_question question =
    (let q = lower question in
     if any_in [''address'', ''location'', ''where are you'', ''where is the school''] q
       then address_answer
     else if any_in [''contact'', ''phone'', ''call'', ''email''] q
       then contact_answer
     else if any_in [''about'', ''tell me about'', ''what is nim'', ''what is nims'',
                     ''new ideal model schools''] q
       then about_answer
     else if str_in ''admission'' q \<or> str_in ''enrol'' q \<or> str_in ''enroll'' q
             \<or> str_in ''apply'' q
       then admissions_answer
     else if str_in ''early years'' q \<or> str_in ''eyfs'' q
       then eyfs_answer
     else if str_in ''key stage 1'' q \<or> str_in ''ks1'' q \<or> str_in ''key stage one'' q
       then ks1_answer
     else if str_in ''key stage 2'' q \<or> str_in ''ks2'' q \<or> str_in ''key stage two'' q
       then ks2_answer
     else if str_in ''key stage 3'' q \<or> str_in ''ks3'' q \<or> str_in ''key stage three'' q
       then ks3_answer
     else if str_in ''key stage 4'' q \<or> str_in ''ks4'' q \<or> str_in ''key stage four'' q
       then ks4_answer
     else if str_in ''class'' q \<or> str_in ''classes'' q \<or> str_in ''grades'' q
             \<or> str_in ''sections'' q
       then classes_answer
     else if str_in ''extracurricular'' q \<or> str_in ''extra-curricular'' q
             \<or> str_in ''activities'' q \<or> str_in ''club'' q \<or> str_in ''sport'' q
       then extracurricular_answer
     else if str_in ''principal'' q \<or> str_in ''head of school'' q
             \<or> str_in ''head of schools'' q
       then principal_answer
     else if str_in ''vice principal academic'' q \<or> str_in ''vp academic'' q
             \<or> str_in ''ifeoma'' q
       then vp_academic_answer
     else if str_in ''vice principal'' q \<or> str_in ''special duties'' q
             \<or> str_in ''david kennedy'' q
       then vp_special_duties_answer
     else if str_in ''art teacher'' q \<or> str_in ''baajon'' q \<or> str_in ''cyracus'' q
       then art_teacher_answer
     else if str_in ''e-librarian'' q \<or> str_in ''ict staff'' q
             \<or> str_in ''samuel oguche'' q
       then ict_answer
     else if str_in ''alumni'' q \<or> str_in ''testimonials'' q
             \<or> str_in ''what do students say'' q
       then alumni_answer
     else if any_in [''fees'', ''school fees'', ''tuition'', ''scholarship'', ''bus'',
                     ''transport'', ''boarding'', ''hostel''] q
       then fees_answer
     else fallback_answer)"

text \<open>
  The trigger words of the groups that the cascade tests before the group of the
  Vice Principal Academic (the first twelve conditions), and of all eighteen groups.
\<close>

definition keywords_before_vp_academic :: "string list" where
  "keywords_before_vp_academic =
    [''address'', ''location'', ''where are you'', ''where is the school'',
     ''contact'', ''phone'', ''call'', ''email'',
     ''about'', ''tell me about'', ''what is nim'', ''what is nims'',
     ''new ideal model schools'',
     ''admission'', ''enrol'', ''enroll'', ''apply'',
     ''early years'', ''eyfs'',
     ''key stage 1'', ''ks1'', ''key stage one'',
     ''key stage 2'', ''ks2'', ''key stage two'',
     ''key stage 3'', ''ks3'', ''key stage three'',
     ''key stage 4'', ''ks4'', ''key stage four'',
     ''class'', ''classes'', ''grades'', ''sections'',
     ''extracurricular'', ''extra-curricular'', ''activities'', ''club'', ''sport'',
     ''principal'', ''head of school'', ''head of schools'']"

definition keywords_from_vp_academic :: "string list" where
  "keywords_from_vp_academic =
    [''vice principal academic'', ''vp academic'', ''ifeoma'',
     ''vice principal'', ''special duties'', ''david kennedy'',
     ''art teacher'', ''baajon'', ''cyracus'',
     ''e-librarian'', ''ict staff'', ''samuel oguche'',
     ''alumni'', ''testimonials'', ''what do students say'',
     ''fees'', ''school fees'', ''tuition'', ''scholarship'', ''bus'',
     ''transport'', ''boarding'', ''hostel'']"

definition trigger_keywords :: "string list" where
  "trigger_keywords = keywords_before_vp_academic @ keywords_from_vp_academic"

section \<open>The PIN-protected results of \<open>results_lookup\<close>\<close>

subsection \<open>Data\<close>

text \<open>
  The values that \<open>jsonify\<close> serialises: integers, strings, and objects whose members
  are kept in the order of the source's dict literals.
\<close>

datatype json = JInt int | JStr string | JObj "(string \<times> json) list"

text \<open>A response of the handler: the JSON body and the HTTP status.\<close>

type_synonym response = "json \<times> nat"

text \<open>One entry of a student's \<open>"subjects"\<close> dict.\<close>

record subject_result =
  score :: int
  grade :: string

text \<open>
  One value of \<open>RESULTS_BY_PIN\<close>; the fields stand for the keys \<open>"student_name"\<close>,
  \<open>"class"\<close>, \<open>"session"\<close>, \<open>"term"\<close> and \<open>"subjects"\<close>. A dict is an association
  list read with \<open>map_of\<close>; no dict of the source repeats a key.
\<close>

record student =
  student_name :: string
  class_of :: string
  session_of :: string
  term_of :: string
  subjects :: "(string \<times> subject_result) list"

definition RESULTS_BY_PIN :: "(string \<times> student) list" where
  "RESULTS_BY_PIN =
    [(''1234'',
      \<lparr>student_name = ''Aisha Ibrahim'',
       class_of = ''Year 6 Zebra'',
       session_of = ''2024/2025'',
       term_of = ''Second Term'',
       subjects =
         [(''mathematics'', \<lparr>score = 88, grade = ''A''\<rparr>),
          (''english'', \<lparr>score = 82, grade = ''A-''\<rparr>),
          (''science'', \<lparr>score = 79, grade = ''B+''\<rparr>),
          (''social studies'', \<lparr>score = 85, grade = ''A''\<rparr>)]\<rparr>),
     (''5678'',
      \<lparr>student_name = ''David Okafor'',
       class_of = ''Year 9 Beryl'',
       session_of = ''2024/2025'',
       term_of = ''Second Term'',
       subjects =
         [(''mathematics'', \<lparr>score = 72, grade = ''B''\<rparr>),
          (''english'', \<lparr>score = 90, grade = ''A+''\<rparr>),
          (''physics'', \<lparr>score = 76, grade = ''B+''\<rparr>),
          (''chemistry'', \<lparr>score = 69, grade = ''C+''\<rparr>)]\<rparr>)]"

text \<open>
  The JSON body of a request, as far as the handler reads it: the members \<open>"pin"\<close> and
  \<open>"subject"\<close>, each a string or missing (\<open>None\<close> also stands for a JSON \<open>null\<close>).
  A member of another JSON type is outside the model.
\<close>

record request =
  pin_field :: "string option"
  subject_field :: "string option"

text \<open>\<open>data.get(key) or ""\<close>\<close>

fun get_or_empty :: "string option \<Rightarrow> string" where
  "get_or_empty None = []"
| "get_or_empty (Some s) = s"

text \<open>\<open>d.get(key, default)\<close>\<close>

definition get_default :: "(string \<times> 'v) list \<Rightarrow> string \<Rightarrow> 'v \<Rightarrow> 'v" where
  "get_default d key dflt = (case map_of d key of None \<Rightarrow> dflt | Some v \<Rightarrow> v)"

definition alias_map :: "(string \<times> string) list" where
  "alias_map =
    [(''math'', ''mathematics''),
     (''maths'', ''mathematics''),
     (''english language'', ''english'')]"

subsection \<open>The responses\<close>

definition missing_pin_response :: response where
  "missing_pin_response =
     (JObj [(''error'', JStr ''Missing 'pin' in request body.'')], 400)"

definition invalid_pin_response :: response where
  "invalid_pin_response =
     (JObj [(''error'', JStr ''Invalid PIN. Please check and try again.'')], 403)"

text \<open>The f-string \<open>f"No recorded result for subject '{subject_raw}' for this student."\<close>\<close>

definition subject_not_found_message :: "string \<Rightarrow> string" where
  "subject_not_found_message subject_raw =
     ''No recorded result for subject '' @ [CHR 0x27] @ subject_raw @ [CHR 0x27] @
     '' for this student.''"

definition subject_not_found_response :: "string \<Rightarrow> response" where
  "subject_not_found_response subject_raw =
     (JObj [(''error'', JStr (subject_not_found_message subject_raw))], 404)"

definition json_of_subject_result :: "subject_result \<Rightarrow> json" where
  "json_of_subject_result r = JObj [(''score'', JInt (score r)), (''grade'', JStr (grade r))]"

definition json_of_subjects :: "(string \<times> subject_result) list \<Rightarrow> json" where
  "json_of_subjects subjs = JObj (map (\<lambda>(name, r). (name, json_of_subject_result r)) subjs)"

definition all_subjects_response :: "student \<Rightarrow> response" where
  "all_subjects_response rec =
     (JObj [(''student_name'', JStr (student_name rec)),
            (''class'', JStr (class_of rec)),
            (''session'', JStr (session_of rec)),
            (''term'', JStr (term_of rec)),
            (''subjects'', json_of_subjects (subjects rec))], 200)"

definition single_subject_response :: "student \<Rightarrow> string \<Rightarrow> subject_result \<Rightarrow> response" where
  "single_subject_response rec subject_key subject_result =
     (JObj [(''student_name'', JStr (student_name rec)),
            (''class'', JStr (class_of rec)),
            (''session'', JStr (session_of rec)),
            (''term'', JStr (term_of rec)),
            (''subject'', JStr subject_key),
            (''score'', JInt (score subject_result)),
            (''grade'', JStr (grade subject_result))], 200)"

subsection \<open>The handler\<close>

text \<open>
  The body of \<open>results_lookup\<close>, with the table it reads from the module global
  \<open>RESULTS_BY_PIN\<close> as an argument. The tests \<open>if not record\<close> and
  \<open>if not subject_result\<close> hold for a missing key only: a value of the table is never an
  empty dict.
\<close>

definition results_lookup_in :: "(string \<times> student) list \<Rightarrow> request \<Rightarrow> response" where
  "results_lookup_in table data =
    (let pin = strip (get_or_empty (pin_field data));
         subject_raw = lower (strip (get_or_empty (subject_field data)))
     in if pin = [] then missing_pin_response
        else case map_of table pin of
          None \<Rightarrow> invalid_pin_response
        | Some rec \<Rightarrow>
            if subject_raw = [] then all_subjects_response rec
            else
              let subject_key = get_default alias_map subject_raw subject_raw in
              case map_of (subjects rec) subject_key of
                None \<Rightarrow> subject_not_found_response subject_raw
              | Some subject_result \<Rightarrow> single_subject_response rec subject_key subject_result)"

definition results_lookup :: "request \<Rightarrow> response" where
  "results_lookup data = results_lookup_in RESULTS_BY_PIN data"

section \<open>Facts about the string operations\<close>

lemmas str_eval = lower_def lower_char_def strip_def is_space_def char_of_def bit_Suc_0_iff

lemma str_in_sublist: "str_in w s \<longleftrightarrow> sublist w s"
  by (induction s) (auto simp add: sublist_Cons_right)

lemma any_in_iff: "any_in ws q \<longleftrightarrow> (\<exists>w \<in> set ws. str_in w q)"
  by (induction ws) auto

lemma length_lower: "length (lower s) = length s"
  by (simp add: lower_def)

lemma if_nonempty: "a \<noteq> [] \<Longrightarrow> b \<noteq> [] \<Longrightarrow> (if c then a else b) \<noteq> []"
  by simp

lemma answers_nonempty:
  "address_answer \<noteq> []" "contact_answer \<noteq> []" "about_answer \<noteq> []"
  "admissions_answer \<noteq> []" "eyfs_answer \<noteq> []" "ks1_answer \<noteq> []" "ks2_answer \<noteq> []"
  "ks3_answer \<noteq> []" "ks4_answer \<noteq> []" "classes_answer \<noteq> []"
  "extracurricular_answer \<noteq> []" "principal_answer \<noteq> []" "vp_academic_answer \<noteq> []"
  "vp_special_duties_answer \<noteq> []" "art_teacher_answer \<noteq> []" "ict_answer \<noteq> []"
  "alumni_answer \<noteq> []" "fees_answer \<noteq> []" "fallback_answer \<noteq> []"
  by (simp_all add: address_answer_def contact_answer_def about_answer_def
      admissions_answer_def eyfs_answer_def ks1_answer_def ks2_answer_def ks3_answer_def
      ks4_answer_def classes_answer_def extracurricular_answer_def principal_answer_def
      vp_academic_answer_def vp_special_duties_answer_def art_teacher_answer_def
      ict_answer_def alumni_answer_def fees_answer_def fallback_answer_def)

lemmas keyword_lists = trigger_keywords_def keywords_before_vp_academic_def
  keywords_from_vp_academic_def

lemmas lookup_eval = results_lookup_def results_lookup_in_def RESULTS_BY_PIN_def
  alias_map_def get_default_def

section \<open>Properties of \<open>answer_question\<close>\<close>

subsection \<open>The Vice Principal Academic (C1)\<close>

text \<open>
  The cascade holds a test for "vice principal academic" that is meant to return the
  answer naming Mrs. Ifeoma Victoria Onwuka, but the test for "principal" stands before
  it. Every question containing "vice principal academic" contains "principal", so that
  trigger is never reached: no such question receives the answer of the Vice Principal
  Academic. The answer itself is reachable, through the trigger "ifeoma".
\<close>

lemma principal_in_trigger: "str_in ''principal'' ''vice principal academic''"
  by simp

lemma str_in_trans: "str_in u v \<Longrightarrow> str_in v w \<Longrightarrow> str_in u w"
  unfolding str_in_sublist by (rule sublist_order.order_trans)

lemma vp_academic_differs:
  "address_answer \<noteq> vp_academic_answer" "contact_answer \<noteq> vp_academic_answer"
  "about_answer \<noteq> vp_academic_answer" "admissions_answer \<noteq> vp_academic_answer"
  "eyfs_answer \<noteq> vp_academic_answer" "ks1_answer \<noteq> vp_academic_answer"
  "ks2_answer \<noteq> vp_academic_answer" "ks3_answer \<noteq> vp_academic_answer"
  "ks4_answer \<noteq> vp_academic_answer" "classes_answer \<noteq> vp_academic_answer"
  "extracurricular_answer \<noteq> vp_academic_answer" "principal_answer \<noteq> vp_academic_answer"
  by (simp_all add: address_answer_def contact_answer_def about_answer_def
      admissions_answer_def eyfs_answer_def ks1_answer_def ks2_answer_def ks3_answer_def
      ks4_answer_def classes_answer_def extracurricular_answer_def principal_answer_def
      vp_academic_answer_def)

lemma vice_principal_academic_trigger_dead:
  assumes "str_in ''vice principal academic'' (lower question)"
  shows "answer_question question \<noteq> vp_academic_answer"
proof -
  have p: "str_in ''principal'' (lower question)"
    using principal_in_trigger assms by (rule str_in_trans)
  show ?thesis
    unfolding answer_question_def Let_def using p
    by (simp add: vp_academic_differs)
qed

lemma vp_academic_answer_reachable:
  "answer_question ''Who is Mrs Ifeoma?'' = vp_academic_answer"
  by (simp add: str_eval answer_question_def)

text \<open>
  C1 says that every question whose lowercased form contains "vice principal academic"
  receives the answer of the Vice Principal Academic. The code does not do that: the
  question "Who is the Vice Principal Academic?" contains the trigger, matches no
  earlier group than the Principal's, and receives the Principal's answer, which is a
  different text.
\<close>

theorem vice_principal_academic_gets_principal_answer:
  "str_in ''vice principal academic'' (lower ''Who is the Vice Principal Academic?'')
   \<and> answer_question ''Who is the Vice Principal Academic?'' = principal_answer
   \<and> principal_answer \<noteq> vp_academic_answer"
  by (simp add: str_eval answer_question_def principal_answer_def vp_academic_answer_def)

subsection \<open>Totality and the fallback (C4)\<close>

text \<open>
  C4: \<open>answer_question\<close> is a total function with no error branch; for every question,
  the empty one included, its result is a non-empty string, and when the lowercased
  question contains none of the trigger words of the eighteen groups the result is the
  fallback text.
\<close>

theorem answer_question_nonempty_fallback:
  "answer_question question \<noteq> [] \<and>
   (\<not> any_in trigger_keywords (lower question) \<longrightarrow> answer_question question = fallback_answer)"
proof
  show "answer_question question \<noteq> []"
    unfolding answer_question_def Let_def by (intro if_nonempty answers_nonempty)
  show "\<not> any_in trigger_keywords (lower question) \<longrightarrow> answer_question question = fallback_answer"
    by (simp add: answer_question_def keyword_lists)
qed

theorem answer_question_nonempty_fallback_witness:
  "answer_question '''' \<noteq> [] \<and> \<not> any_in trigger_keywords (lower '''')
   \<and> answer_question '''' = fallback_answer
   \<and> \<not> any_in trigger_keywords (lower ''How old is the school?'')
   \<and> answer_question ''How old is the school?'' = fallback_answer"
  using answer_question_nonempty_fallback [of "''''"]
    answer_question_nonempty_fallback [of "''How old is the school?''"]
  by (auto simp add: str_eval keyword_lists)

subsection \<open>Address and location (C6)\<close>

text \<open>
  C6: a question whose lowercased form contains "address" or "location" receives exactly
  the address answer (No. 12 Old Pantisawa Road, Jalingo, Taraba State, Nigeria): these
  two words belong to the first group of the cascade.
\<close>

theorem address_or_location:
  "str_in ''address'' (lower question) \<or> str_in ''location'' (lower question)
   \<Longrightarrow> answer_question question = address_answer"
  by (auto simp add: answer_question_def)

theorem address_or_location_witness:
  "str_in ''address'' (lower ''What is your ADDRESS?'')
   \<and> answer_question ''What is your ADDRESS?'' = address_answer
   \<and> str_in ''location'' (lower ''Location of the principal, please'')
   \<and> answer_question ''Location of the principal, please'' = address_answer"
  using address_or_location [of "''What is your ADDRESS?''"]
    address_or_location [of "''Location of the principal, please''"]
  by (simp add: str_eval)

subsection \<open>Matching inside a longer word (C10)\<close>

text \<open>
  C10: a trigger word is looked for as a bare substring, with no test of word boundaries.
  The question "recall" is one word, is no trigger word itself, and the only trigger
  word occurring in it is "call", inside the word; it receives the contact answer, not
  the fallback.
\<close>

theorem substring_match_inside_word:
  "\<not> list_ex is_space ''recall'' \<and> ''recall'' \<notin> set trigger_keywords
   \<and> filter (\<lambda>w. str_in w (lower ''recall'')) trigger_keywords = [''call'']
   \<and> answer_question ''recall'' = contact_answer
   \<and> answer_question ''recall'' \<noteq> fallback_answer"
  by (simp add: str_eval keyword_lists answer_question_def contact_answer_def
      fallback_answer_def)

section \<open>Properties of \<open>results_lookup\<close>\<close>

subsection \<open>A subject without a result (C2)\<close>

text \<open>
  C2, as stated, fails: the message does not echo the subject as the user sent it. The
  handler trims and lowercases the subject first and interpolates that text. PIN "5678"
  is in the table and "Biology" has no entry for that student, yet the message names
  'biology'.
\<close>

theorem subject_echo_counterexample:
  "map_of RESULTS_BY_PIN ''5678'' \<noteq> None
   \<and> map_of (subjects (the (map_of RESULTS_BY_PIN ''5678'')))
        (get_default alias_map (lower (strip ''Biology'')) (lower (strip ''Biology''))) = None
   \<and> results_lookup \<lparr>pin_field = Some ''5678'', subject_field = Some ''Biology''\<rparr>
       = (JObj [(''error'',
                 JStr ''No recorded result for subject 'biology' for this student.'')], 404)
   \<and> ''No recorded result for subject 'biology' for this student.''
       \<noteq> subject_not_found_message ''Biology''"
  by (simp add: lookup_eval str_eval subject_not_found_response_def
      subject_not_found_message_def)

text \<open>
  C2, amended: when the trimmed PIN is not empty and has a record in the table, and the
  subject, trimmed and lowercased, is not empty and after alias resolution has no entry
  in that student's subject map, the handler returns the error with status 404 whose
  message echoes the trimmed, lowercased subject text as it was before alias resolution,
  not the canonical key. This holds for every table, so also for one in which the
  canonical key of an alias is missing.
\<close>

theorem subject_not_found_echoes_normalised_subject:
  assumes "strip (get_or_empty (pin_field data)) = pin" and "pin \<noteq> []"
    and "map_of table pin = Some rec"
    and "lower (strip (get_or_empty (subject_field data))) = subject_raw"
    and "subject_raw \<noteq> []"
    and "map_of (subjects rec) (get_default alias_map subject_raw subject_raw) = None"
  shows "results_lookup_in table data =
     (JObj [(''error'', JStr (''No recorded result for subject '' @ [CHR 0x27] @ subject_raw
          @ [CHR 0x27] @ '' for this student.''))], 404)"
  using assms
  by (simp add: results_lookup_in_def subject_not_found_response_def
      subject_not_found_message_def)

theorem subject_not_found_echoes_normalised_subject_witness:
  "results_lookup \<lparr>pin_field = Some ''5678'', subject_field = Some '' Biology ''\<rparr>
     = (JObj [(''error'',
               JStr ''No recorded result for subject 'biology' for this student.'')], 404)
   \<and> results_lookup_in
       [(''42'', \<lparr>student_name = ''N'', class_of = ''C'', session_of = ''S'', term_of = ''T'',
                 subjects = [(''english'', \<lparr>score = 50, grade = ''C''\<rparr>)]\<rparr>)]
       \<lparr>pin_field = Some ''42'', subject_field = Some ''Math''\<rparr>
     = (JObj [(''error'',
               JStr ''No recorded result for subject 'math' for this student.'')], 404)"
  using subject_not_found_echoes_normalised_subject
    [of "\<lparr>pin_field = Some ''5678'', subject_field = Some '' Biology ''\<rparr>" "''5678''"
        RESULTS_BY_PIN "the (map_of RESULTS_BY_PIN ''5678'')" "''biology''"]
    subject_not_found_echoes_normalised_subject
    [of "\<lparr>pin_field = Some ''42'', subject_field = Some ''Math''\<rparr>" "''42''"
        "[(''42'', \<lparr>student_name = ''N'', class_of = ''C'', session_of = ''S'',
                  term_of = ''T'',
                  subjects = [(''english'', \<lparr>score = 50, grade = ''C''\<rparr>)]\<rparr>)]"
        "\<lparr>student_name = ''N'', class_of = ''C'', session_of = ''S'', term_of = ''T'',
          subjects = [(''english'', \<lparr>score = 50, grade = ''C''\<rparr>)]\<rparr>"
        "''math''"]
  by (simp add: results_lookup_def RESULTS_BY_PIN_def alias_map_def get_default_def str_eval)

subsection \<open>A PIN that is not in the table (C3)\<close>

text \<open>
  C3, as stated, fails for the empty PIN: it is absent from the table, but the handler
  answers it with the missing-field error (status 400), which differs from the
  invalid-PIN error (status 403).
\<close>

theorem empty_pin_counterexample:
  "map_of RESULTS_BY_PIN '''' = None
   \<and> results_lookup \<lparr>pin_field = Some '''', subject_field = None\<rparr> = missing_pin_response
   \<and> missing_pin_response \<noteq> invalid_pin_response"
  by (simp add: lookup_eval str_eval missing_pin_response_def invalid_pin_response_def)

text \<open>
  C3, amended: every request whose trimmed PIN is not empty and has no record in the
  table receives one and the same invalid-PIN response (the fixed message, status 403),
  whatever the PIN and the subject are; a PIN that is missing, empty or only whitespace
  receives the missing-field response (status 400) instead.
\<close>

theorem absent_pin_invalid:
  "(strip (get_or_empty (pin_field data)) \<noteq> []
      \<and> map_of RESULTS_BY_PIN (strip (get_or_empty (pin_field data))) = None
     \<longrightarrow> results_lookup data = invalid_pin_response)
   \<and> (strip (get_or_empty (pin_field data)) = []
     \<longrightarrow> results_lookup data = missing_pin_response)"
  by (simp add: results_lookup_def results_lookup_in_def)

theorem absent_pin_invalid_witness:
  "strip ''9999'' \<noteq> [] \<and> map_of RESULTS_BY_PIN (strip ''9999'') = None
   \<and> results_lookup \<lparr>pin_field = Some ''9999'', subject_field = Some ''math''\<rparr>
       = invalid_pin_response
   \<and> strip ''1235 '' \<noteq> [] \<and> map_of RESULTS_BY_PIN (strip ''1235 '') = None
   \<and> results_lookup \<lparr>pin_field = Some ''1235 '', subject_field = None\<rparr>
       = invalid_pin_response
   \<and> strip ''  '' = []
   \<and> results_lookup \<lparr>pin_field = Some ''  '', subject_field = None\<rparr> = missing_pin_response"
  using absent_pin_invalid [of "\<lparr>pin_field = Some ''9999'', subject_field = Some ''math''\<rparr>"]
    absent_pin_invalid [of "\<lparr>pin_field = Some ''1235 '', subject_field = None\<rparr>"]
    absent_pin_invalid [of "\<lparr>pin_field = Some ''  '', subject_field = None\<rparr>"]
  by (simp add: str_eval RESULTS_BY_PIN_def)

subsection \<open>All subjects of PIN 1234 (C7)\<close>

text \<open>
  C7: PIN "1234" with an empty subject returns, with status 200, the record of Aisha
  Ibrahim: her class, session and term, and exactly the four subjects mathematics 88,
  english 82, science 79 and social studies 85, each with its grade.
\<close>

theorem all_subjects_of_1234:
  "results_lookup \<lparr>pin_field = Some ''1234'', subject_field = Some ''''\<rparr> =
   (JObj [(''student_name'', JStr ''Aisha Ibrahim''),
          (''class'', JStr ''Year 6 Zebra''),
          (''session'', JStr ''2024/2025''),
          (''term'', JStr ''Second Term''),
          (''subjects'', JObj
             [(''mathematics'', JObj [(''score'', JInt 88), (''grade'', JStr ''A'')]),
              (''english'', JObj [(''score'', JInt 82), (''grade'', JStr ''A-'')]),
              (''science'', JObj [(''score'', JInt 79), (''grade'', JStr ''B+'')]),
              (''social studies'', JObj [(''score'', JInt 85), (''grade'', JStr ''A'')])])],
    200)"
  by (simp add: lookup_eval str_eval all_subjects_response_def json_of_subjects_def
      json_of_subject_result_def)

subsection \<open>The alias "math" (C8)\<close>

text \<open>
  C8: PIN "1234" with subject "math" resolves the subject through the alias table to
  "mathematics" and returns, with status 200, the single result with that subject key,
  score 88 and grade "A". In general, for a request with a valid PIN and a subject that
  is not empty after trimming and lowercasing, the handler looks up "mathematics" for
  "math" and "maths", "english" for "english language", and every other subject under
  its own trimmed, lowercased text; it returns the single result under that key, or the
  subject-not-found error when the student has none.
\<close>

theorem math_alias_of_1234:
  "results_lookup \<lparr>pin_field = Some ''1234'', subject_field = Some ''math''\<rparr> =
     (JObj [(''student_name'', JStr ''Aisha Ibrahim''),
            (''class'', JStr ''Year 6 Zebra''),
            (''session'', JStr ''2024/2025''),
            (''term'', JStr ''Second Term''),
            (''subject'', JStr ''mathematics''),
            (''score'', JInt 88),
            (''grade'', JStr ''A'')], 200)
   \<and> (strip (get_or_empty (pin_field data)) \<noteq> []
        \<and> map_of RESULTS_BY_PIN (strip (get_or_empty (pin_field data))) = Some rec
        \<and> lower (strip (get_or_empty (subject_field data))) = subject_raw
        \<and> subject_raw \<noteq> []
      \<longrightarrow> results_lookup data =
          (let subject_key =
                 (if subject_raw = ''math'' \<or> subject_raw = ''maths'' then ''mathematics''
                  else if subject_raw = ''english language'' then ''english''
                  else subject_raw)
           in case map_of (subjects rec) subject_key of
                None \<Rightarrow> subject_not_found_response subject_raw
              | Some subject_result \<Rightarrow>
                  single_subject_response rec subject_key subject_result))"
proof
  show "results_lookup \<lparr>pin_field = Some ''1234'', subject_field = Some ''math''\<rparr> =
     (JObj [(''student_name'', JStr ''Aisha Ibrahim''),
            (''class'', JStr ''Year 6 Zebra''),
            (''session'', JStr ''2024/2025''),
            (''term'', JStr ''Second Term''),
            (''subject'', JStr ''mathematics''),
            (''score'', JInt 88),
            (''grade'', JStr ''A'')], 200)"
    by (simp add: lookup_eval str_eval single_subject_response_def)
next
  show "strip (get_or_empty (pin_field data)) \<noteq> []
        \<and> map_of RESULTS_BY_PIN (strip (get_or_empty (pin_field data))) = Some rec
        \<and> lower (strip (get_or_empty (subject_field data))) = subject_raw
        \<and> subject_raw \<noteq> []
      \<longrightarrow> results_lookup data =
          (let subject_key =
                 (if subject_raw = ''math'' \<or> subject_raw = ''maths'' then ''mathematics''
                  else if subject_raw = ''english language'' then ''english''
                  else subject_raw)
           in case map_of (subjects rec) subject_key of
                None \<Rightarrow> subject_not_found_response subject_raw
              | Some subject_result \<Rightarrow>
                  single_subject_response rec subject_key subject_result)"
    by (auto simp add: results_lookup_def results_lookup_in_def alias_map_def
        get_default_def)
qed

text \<open>
  The general part at two requests: "Science" is no alias and is looked up as
  "science"; "English Language" is an alias and is looked up as "english".
\<close>

theorem math_alias_of_1234_witness:
  "results_lookup \<lparr>pin_field = Some ''1234'', subject_field = Some '' Science''\<rparr> =
     (JObj [(''student_name'', JStr ''Aisha Ibrahim''),
            (''class'', JStr ''Year 6 Zebra''),
            (''session'', JStr ''2024/2025''),
            (''term'', JStr ''Second Term''),
            (''subject'', JStr ''science''),
            (''score'', JInt 79),
            (''grade'', JStr ''B+'')], 200)
   \<and> results_lookup \<lparr>pin_field = Some ''5678'', subject_field = Some ''English Language''\<rparr> =
     (JObj [(''student_name'', JStr ''David Okafor''),
            (''class'', JStr ''Year 9 Beryl''),
            (''session'', JStr ''2024/2025''),
            (''term'', JStr ''Second Term''),
            (''subject'', JStr ''english''),
            (''score'', JInt 90),
            (''grade'', JStr ''A+'')], 200)"
  using math_alias_of_1234
      [of "\<lparr>pin_field = Some ''1234'', subject_field = Some '' Science''\<rparr>"
        "the (map_of RESULTS_BY_PIN ''1234'')" "''science''"]
    math_alias_of_1234
      [of "\<lparr>pin_field = Some ''5678'', subject_field = Some ''English Language''\<rparr>"
        "the (map_of RESULTS_BY_PIN ''5678'')" "''english language''"]
  by (simp add: RESULTS_BY_PIN_def str_eval single_subject_response_def)

subsection \<open>The PIN in error payloads (C9)\<close>

text \<open>
  C9: no error payload is built from the PIN. A response with a status other than 200
  is the fixed missing-field response, the fixed invalid-PIN response, or the
  subject-not-found response, whose message interpolates only the trimmed, lowercased
  subject text, never the PIN.
\<close>

theorem error_payload_without_pin:
  "snd (results_lookup data) \<noteq> 200 \<Longrightarrow>
   results_lookup data = missing_pin_response \<or>
   results_lookup data = invalid_pin_response \<or>
   results_lookup data =
     subject_not_found_response (lower (strip (get_or_empty (subject_field data))))"
  by (auto simp add: results_lookup_def results_lookup_in_def Let_def
      all_subjects_response_def single_subject_response_def
      split: option.splits if_splits)

theorem error_payload_without_pin_witness:
  "snd (results_lookup \<lparr>pin_field = Some ''5678'', subject_field = Some ''History''\<rparr>) \<noteq> 200
   \<and> results_lookup \<lparr>pin_field = Some ''5678'', subject_field = Some ''History''\<rparr>
       = subject_not_found_response ''history''"
  using error_payload_without_pin
    [of "\<lparr>pin_field = Some ''5678'', subject_field = Some ''History''\<rparr>"]
  by (simp add: lookup_eval str_eval subject_not_found_response_def
      subject_not_found_message_def)

end
